theory Spec2Isabelle
  imports Main "HOL-Library.Sublist"
begin

section \<open>The cache manager of the generative-AI client (src/server/cache-manager.ts)\<close>

text \<open>
  The embedding follows \<^verbatim>\<open>GoogleAICacheManager\<close> statement by statement.
  JavaScript objects live in an explicit store, so that the shallow copies the methods
  make (\<^verbatim>\<open>{ ...createOptions }\<close>) and the writes to them are visible as such. Every
  \<^verbatim>\<open>throw\<close> is a result \<open>Inl e\<close>; every call of \<^verbatim>\<open>makeServerRequest\<close> is
  recorded in a log of issued requests.
\<close>

subsection \<open>Values\<close>

text \<open>
  \<^verbatim>\<open>ttlSeconds\<close> is an integer count of seconds; the model covers the integer-valued
  numbers. An optional property is an \<open>option\<close>: \<open>None\<close> is \<^verbatim>\<open>undefined\<close>.
\<close>

type_synonym number = int

text \<open>
  Modelled from the spec: the error classes of \<^verbatim>\<open>../errors\<close>, which is not among the
  sources. The two classes the manager throws carry their message; \<open>RequestError\<close> is the
  spec's request error, with the HTTP status and the response body.
\<close>

datatype error =
    GoogleGenerativeAIError string
  | GoogleGenerativeAIRequestInputError string
  | RequestError nat string

text \<open>
  Modelled from the spec: \<^verbatim>\<open>RpcTask\<close> of \<^verbatim>\<open>./constants\<close>, which is not among the
  sources; the five operations on the resource collection.
\<close>

datatype RpcTask = CREATE | LIST | GET | UPDATE | DELETE

text \<open>JavaScript truthiness of an optional number and of an optional string.\<close>

definition truthy_number :: "number option \<Rightarrow> bool" where
  "truthy_number v = (case v of None \<Rightarrow> False | Some n \<Rightarrow> n \<noteq> 0)"

definition truthy_string :: "string option \<Rightarrow> bool" where
  "truthy_string v = (case v of None \<Rightarrow> False | Some s \<Rightarrow> s \<noteq> [])"

subsection \<open>Strings\<close>

text \<open>
  The decimal numeral of an integer, as a template literal prints an integer-valued number
  (of a magnitude below \<open>10\<^sup>2\<^sup>1\<close>). Strings are lists of 8-bit characters, which is
  what names of resources, of models and of fields are made of.
\<close>

fun nat_to_string :: "nat \<Rightarrow> string" where
  "nat_to_string n =
     (if n < 10 then [''0123456789'' ! n]
      else nat_to_string (n div 10) @ [''0123456789'' ! (n mod 10)])"

definition number_to_string :: "number \<Rightarrow> string" where
  "number_to_string i =
     (if i < 0 then ''-'' @ nat_to_string (nat (- i)) else nat_to_string (nat i))"

text \<open>The template literal \<^verbatim>\<open>`${x}s`\<close> for an optional number \<open>x\<close>.\<close>

definition template_s :: "number option \<Rightarrow> string" where
  "template_s v =
     (case v of None \<Rightarrow> ''undefined'' | Some n \<Rightarrow> number_to_string n) @ ''s''"

text \<open>\<^verbatim>\<open>String.prototype.startsWith\<close> and \<^verbatim>\<open>String.prototype.includes\<close>.\<close>

definition startsWith :: "string \<Rightarrow> string \<Rightarrow> bool" where
  "startsWith s p = prefix p s"

definition includes_str :: "string \<Rightarrow> string \<Rightarrow> bool" where
  "includes_str s p = sublist p s"

text \<open>
  \<^verbatim>\<open>String.prototype.split\<close> with a string separator: the pieces between the
  successive occurrences of the separator, found from left to right. \<open>cur\<close> is the
  piece being read.
\<close>

function split_from :: "string \<Rightarrow> string \<Rightarrow> string \<Rightarrow> string list" where
  "split_from sep cur s =
     (if s = [] then [cur]
      else if sep \<noteq> [] \<and> prefix sep s then cur # split_from sep [] (drop (length sep) s)
      else split_from sep (cur @ [hd s]) (tl s))"
  by pat_completeness auto
termination
  by (relation "measure (\<lambda>(sep, cur, s). length s)") auto

definition split :: "string \<Rightarrow> string \<Rightarrow> string list" where
  "split s sep = (if sep = [] then map (\<lambda>c. [c]) s else split_from sep [] s)"

text \<open>Reading an array at an index: \<open>None\<close> is \<^verbatim>\<open>undefined\<close>.\<close>

definition at :: "'a list \<Rightarrow> nat \<Rightarrow> 'a option" where
  "at xs i = (if i < length xs then Some (xs ! i) else None)"

text \<open>\<^verbatim>\<open>Array.prototype.join\<close> on an array of strings.\<close>

fun join :: "string list \<Rightarrow> string \<Rightarrow> string" where
  "join [] sep = []"
| "join [x] sep = x"
| "join (x # y # ys) sep = x @ sep @ join (y # ys) sep"

text \<open>The character class \<^verbatim>\<open>[A-Z]\<close> and \<^verbatim>\<open>toLowerCase\<close> on ASCII.\<close>

definition in_A_Z :: "char \<Rightarrow> bool" where
  "in_A_Z c = (65 \<le> (of_char c :: nat) \<and> (of_char c :: nat) \<le> 90)"

definition toLowerCase :: "string \<Rightarrow> string" where
  "toLowerCase s = map (\<lambda>c. if in_A_Z c then char_of (of_char c + (32::nat)) else c) s"

text \<open>
  \<^verbatim>\<open>str.replace(re, fn)\<close> for a global regular expression that is one character
  class: every matching character is replaced by what the callback returns for it.
\<close>

definition replace_class :: "(char \<Rightarrow> bool) \<Rightarrow> (string \<Rightarrow> string) \<Rightarrow> string \<Rightarrow> string" where
  "replace_class cls fn str = concat (map (\<lambda>c. if cls c then fn [c] else [c]) str)"

definition camelToSnake :: "string \<Rightarrow> string" where
  "camelToSnake str = replace_class in_A_Z (\<lambda>letter. ''_'' @ toLowerCase letter) str"




subsection \<open>Parsing the cache name\<close>

text \<open>
  The name is optional, for the callers that pass none: \<^verbatim>\<open>!name\<close> holds of
  \<^verbatim>\<open>undefined\<close> and of the empty string. After \<^verbatim>\<open>startsWith\<close> the array that
  \<^verbatim>\<open>split\<close> returns has an element at index 1 (\<open>split_from_at_sep\<close>), so the last
  branch, where \<^verbatim>\<open>[1]\<close> would be \<^verbatim>\<open>undefined\<close>, is never taken.
\<close>

definition parseCacheName :: "string option \<Rightarrow> error + string" where
  "parseCacheName name =
     (case name of
        None \<Rightarrow> Inl (GoogleGenerativeAIError
                  ''Invalid cache name. Must be 'cachedContents/name' or 'name'.'')
      | Some n \<Rightarrow>
          if n = [] then Inl (GoogleGenerativeAIError
                  ''Invalid cache name. Must be 'cachedContents/name' or 'name'.'')
          else Inr (if startsWith n ''cachedContents/''
                    then (case at (split n ''cachedContents/'') 1 of
                            Some piece \<Rightarrow> piece | None \<Rightarrow> ''undefined'')
                    else n))"

subsection \<open>Objects and the store\<close>

text \<open>
  Modelled from the spec: the types of \<^verbatim>\<open>../../types/server\<close>, which is not among the
  sources. One record has the properties the manager reads and writes on
  \<^verbatim>\<open>CachedContentCreateParams\<close>, on the \<^verbatim>\<open>cachedContent\<close> of
  \<^verbatim>\<open>CachedContentUpdateParams\<close>, and on the copies it makes of them. A property that
  is \<open>None\<close> is absent, and is not written by \<^verbatim>\<open>JSON.stringify\<close>. \<open>contents\<close>
  stands for the content properties the manager never looks at (\<^verbatim>\<open>contents\<close>,
  \<^verbatim>\<open>tools\<close>, \<^verbatim>\<open>systemInstruction\<close>, ...). In \<open>CachedContentUpdateParams\<close> the
  \<open>cachedContent\<close> is a reference to an object of the store.
\<close>

record 'c cached_content =
  model :: "string option"
  ttlSeconds :: "number option"
  expireTime :: "string option"
  ttl :: "string option"
  contents :: 'c

type_synonym addr = nat

record CachedContentUpdateParams =
  cachedContent :: addr
  updateMask :: "string list option"

text \<open>
  Modelled from the spec: \<^verbatim>\<open>CachedContentUrl\<close> of \<^verbatim>\<open>./request\<close>, which is not
  among the sources. The spec gives the paths \<^verbatim>\<open>/cachedContents\<close> and
  \<^verbatim>\<open>/cachedContents/{id}\<close>, and the query \<^verbatim>\<open>?update_mask=...\<close>.
\<close>

record 'o url =
  task :: RpcTask
  url_apiKey :: string
  url_requestOptions :: 'o
  pathname :: string
  searchParams :: "(string \<times> string) list"

definition CachedContentUrl :: "RpcTask \<Rightarrow> string \<Rightarrow> 'o \<Rightarrow> 'o url" where
  "CachedContentUrl t k ro =
     \<lparr>task = t, url_apiKey = k, url_requestOptions = ro,
      pathname = ''/cachedContents'', searchParams = []\<rparr>"

definition appendPath :: "'o url \<Rightarrow> string \<Rightarrow> 'o url" where
  "appendPath u p = u\<lparr>pathname := pathname u @ ''/'' @ p\<rparr>"

definition appendParam :: "'o url \<Rightarrow> string \<Rightarrow> string \<Rightarrow> 'o url" where
  "appendParam u k v = u\<lparr>searchParams := searchParams u @ [(k, v)]\<rparr>"

record ('c, 'o) request =
  url :: "'o url"
  body :: "'c cached_content option"

text \<open>
  The world: the store of objects (an address is an index) and the requests issued so far.
\<close>

record ('c, 'o) world =
  heap :: "'c cached_content list"
  requests :: "('c, 'o) request list"

text \<open>\<^verbatim>\<open>{ ...src }\<close>: a new object with the properties of the object at \<open>src\<close>.\<close>

definition spread :: "addr \<Rightarrow> ('c, 'o) world \<Rightarrow> addr \<times> ('c, 'o) world" where
  "spread src w = (length (heap w), w\<lparr>heap := heap w @ [heap w ! src]\<rparr>)"

text \<open>A write to the object at \<open>a\<close>: an assignment to a property, or its \<^verbatim>\<open>delete\<close>.\<close>

definition store :: "addr \<Rightarrow> ('c cached_content \<Rightarrow> 'c cached_content) \<Rightarrow> ('c, 'o) world
    \<Rightarrow> ('c, 'o) world" where
  "store a f w = w\<lparr>heap := (heap w)[a := f (heap w ! a)]\<rparr>"

text \<open>
  Modelled from the spec: \<^verbatim>\<open>makeServerRequest\<close> of \<^verbatim>\<open>./request\<close>, which is not
  among the sources. It issues the request; a non-success status or a failing transport is
  a request error carrying the status and the response body. The remote service is the
  parameter \<open>srv\<close>. The headers are a function of the URL and are not recorded apart.
\<close>

type_synonym ('c, 'o, 'r) server = "('c, 'o) request \<Rightarrow> (nat \<times> string) + 'r"

definition makeServerRequest :: "('c, 'o, 'r) server \<Rightarrow> 'o url \<Rightarrow> 'c cached_content option
    \<Rightarrow> ('c, 'o) world \<Rightarrow> (error + 'r) \<times> ('c, 'o) world" where
  "makeServerRequest srv u b w =
     (let req = \<lparr>url = u, body = b\<rparr> in
      (case srv req of
         Inl (status, text) \<Rightarrow> Inl (RequestError status text)
       | Inr response \<Rightarrow> Inr response,
       w\<lparr>requests := requests w @ [req]\<rparr>))"

subsection \<open>The manager\<close>

text \<open>
  Each method takes the remote service and the world, and returns what it returns or
  throws together with the world it leaves. In \<open>create\<close> the first \<open>case\<close> is the
  statement \<^verbatim>\<open>if (createOptions.ttlSeconds) { ... }\<close>, which throws or goes on with the
  world it has written to; \<^verbatim>\<open>!newCachedContent.model\<close> holds of an absent model and of
  the empty string.
\<close>

record 'o GoogleAICacheManager =
  apiKey :: string
  requestOptions :: 'o

definition create :: "'o GoogleAICacheManager \<Rightarrow> ('c, 'o, 'r) server \<Rightarrow> addr
    \<Rightarrow> ('c, 'o) world \<Rightarrow> (error + 'r) \<times> ('c, 'o) world" where
  "create this srv createOptions w =
     (let (newCachedContent, w1) = spread createOptions w in
      case (if truthy_number (ttlSeconds (heap w1 ! createOptions)) then
              if truthy_string (expireTime (heap w1 ! createOptions)) then
                Inl (GoogleGenerativeAIRequestInputError
                  ''Cannot specify both `ttlSeconds` and `expireTime`. Choose one.'')
              else
                Inr (store newCachedContent (\<lambda>obj. obj\<lparr>ttlSeconds := None\<rparr>)
                      (store newCachedContent
                         (\<lambda>obj. obj\<lparr>ttl := Some (template_s (ttlSeconds (heap w1 ! createOptions)))\<rparr>)
                         w1))
            else Inr w1) of
        Inl e \<Rightarrow> (Inl e, w1)
      | Inr w2 \<Rightarrow>
          (case model (heap w2 ! newCachedContent) of
             None \<Rightarrow> (Inl (GoogleGenerativeAIRequestInputError
                       ''Cached content requires a `model` field.''), w2)
           | Some m \<Rightarrow>
               if m = [] then
                 (Inl (GoogleGenerativeAIRequestInputError
                       ''Cached content requires a `model` field.''), w2)
               else
                 let w3 = (if \<not> includes_str m ''/''
                           then store newCachedContent (\<lambda>obj. obj\<lparr>model := Some (''models/'' @ m)\<rparr>) w2
                           else w2)
                 in makeServerRequest srv
                      (CachedContentUrl CREATE (apiKey this) (requestOptions this))
                      (Some (heap w3 ! newCachedContent)) w3))"

definition get :: "'o GoogleAICacheManager \<Rightarrow> ('c, 'o, 'r) server \<Rightarrow> string option
    \<Rightarrow> ('c, 'o) world \<Rightarrow> (error + 'r) \<times> ('c, 'o) world" where
  "get this srv name w =
     (let u = CachedContentUrl GET (apiKey this) (requestOptions this) in
      case parseCacheName name of
        Inl e \<Rightarrow> (Inl e, w)
      | Inr p \<Rightarrow> makeServerRequest srv (appendPath u p) None w)"

definition update :: "'o GoogleAICacheManager \<Rightarrow> ('c, 'o, 'r) server \<Rightarrow> string option
    \<Rightarrow> CachedContentUpdateParams \<Rightarrow> ('c, 'o) world \<Rightarrow> (error + 'r) \<times> ('c, 'o) world" where
  "update this srv name updateParams w =
     (let u = CachedContentUrl UPDATE (apiKey this) (requestOptions this) in
      case parseCacheName name of
        Inl e \<Rightarrow> (Inl e, w)
      | Inr p \<Rightarrow>
          let u1 = appendPath u p;
              (formattedCachedContent, w1) = spread (cachedContent updateParams) w;
              w2 = (if truthy_number (ttlSeconds (heap w1 ! cachedContent updateParams)) then
                      store formattedCachedContent (\<lambda>obj. obj\<lparr>ttlSeconds := None\<rparr>)
                        (store formattedCachedContent
                           (\<lambda>obj. obj\<lparr>ttl := Some (template_s
                               (ttlSeconds (heap w1 ! cachedContent updateParams)))\<rparr>)
                           w1)
                    else w1);
              u2 = (case updateMask updateParams of
                      Some fieldNames \<Rightarrow>
                        appendParam u1 ''update_mask'' (join (map camelToSnake fieldNames) '','')
                    | None \<Rightarrow> u1)
          in makeServerRequest srv u2 (Some (heap w2 ! formattedCachedContent)) w2)"

definition delete :: "'o GoogleAICacheManager \<Rightarrow> ('c, 'o, 'r) server \<Rightarrow> string option
    \<Rightarrow> ('c, 'o) world \<Rightarrow> (error + unit) \<times> ('c, 'o) world" where
  "delete this srv name w =
     (let u = CachedContentUrl DELETE (apiKey this) (requestOptions this) in
      case parseCacheName name of
        Inl e \<Rightarrow> (Inl e, w)
      | Inr p \<Rightarrow>
          (case makeServerRequest srv (appendPath u p) None w of
             (Inl e, w') \<Rightarrow> (Inl e, w')
           | (Inr response, w') \<Rightarrow> (Inr (), w')))"

subsection \<open>A concrete manager and remote service\<close>

definition example_manager :: "unit GoogleAICacheManager" where
  "example_manager = \<lparr>apiKey = ''key'', requestOptions = ()\<rparr>"

definition ok_server :: "(unit, unit, unit) server" where
  "ok_server req = Inr ()"

text \<open>The world in which one object has been allocated and no request issued.\<close>

definition world_of :: "unit cached_content \<Rightarrow> (unit, unit) world" where
  "world_of obj = \<lparr>heap = [obj], requests = []\<rparr>"

section \<open>Properties\<close>

subsection \<open>Strings\<close>

lemma split_from_no_sep:
  "\<not> sublist sep s \<Longrightarrow> split_from sep cur s = [cur @ s]"
proof (induction sep cur s rule: split_from.induct)
  case (1 sep cur s)
  show ?case
  proof (cases "s = []")
    case True
    then show ?thesis by simp
  next
    case False
    then obtain c cs where s: "s = c # cs" by (cases s) auto
    from "1.prems" have np: "\<not> prefix sep s" and nt: "\<not> sublist sep (tl s)"
      by (auto simp: s sublist_Cons_right)
    from "1.IH"(2) [OF False _ nt] np
    have "split_from sep (cur @ [hd s]) (tl s) = [(cur @ [hd s]) @ tl s]" by simp
    with False np show ?thesis
      by (subst split_from.simps) (simp add: s)
  qed
qed

lemma split_from_at_sep:
  "sep \<noteq> [] \<Longrightarrow> split_from sep cur (sep @ s) = cur # split_from sep [] s"
  by (subst split_from.simps) simp










subsection \<open>The cache name\<close>

lemma parseCacheName_prefixed:
  assumes "\<not> sublist ''cachedContents/'' ident"
  shows "parseCacheName (Some (''cachedContents/'' @ ident)) = Inr ident"
proof -
  have "split (''cachedContents/'' @ ident) ''cachedContents/'' = [[], ident]"
    unfolding split_def using split_from_at_sep [of "''cachedContents/''" "[]" ident]
      split_from_no_sep [OF assms, of "[]"] by simp
  then show ?thesis
    by (simp add: parseCacheName_def startsWith_def at_def)
qed

lemma parseCacheName_bare:
  "n \<noteq> [] \<Longrightarrow> \<not> prefix ''cachedContents/'' n \<Longrightarrow> parseCacheName (Some n) = Inr n"
  by (simp add: parseCacheName_def startsWith_def)

lemma parseCacheName_falsy:
  "parseCacheName None = Inl (GoogleGenerativeAIError
      ''Invalid cache name. Must be 'cachedContents/name' or 'name'.'')"
  "parseCacheName (Some []) = Inl (GoogleGenerativeAIError
      ''Invalid cache name. Must be 'cachedContents/name' or 'name'.'')"
  by (simp_all add: parseCacheName_def)

lemma parseCacheName_truthy:
  "n \<noteq> [] \<Longrightarrow> \<exists>p. parseCacheName (Some n) = Inr p"
  by (simp add: parseCacheName_def)

text \<open>With a falsy name, \<open>get\<close>, \<open>update\<close> and \<open>delete\<close> throw and issue no request.\<close>

lemma falsy_name_no_request:
  assumes "name = None \<or> name = Some []"
  shows "get this srv name w = (Inl (GoogleGenerativeAIError
      ''Invalid cache name. Must be 'cachedContents/name' or 'name'.''), w)"
    and "update this srv name updateParams w = (Inl (GoogleGenerativeAIError
      ''Invalid cache name. Must be 'cachedContents/name' or 'name'.''), w)"
    and "delete this srv name w = (Inl (GoogleGenerativeAIError
      ''Invalid cache name. Must be 'cachedContents/name' or 'name'.''), w)"
  using assms by (auto simp add: get_def update_def delete_def parseCacheName_falsy)

subsection \<open>Requests and the store\<close>

lemma makeServerRequest_requests:
  "requests (snd (makeServerRequest srv u b w)) = requests w @ [\<lparr>url = u, body = b\<rparr>]"
  by (simp add: makeServerRequest_def Let_def)

lemma makeServerRequest_heap:
  "heap (snd (makeServerRequest srv u b w)) = heap w"
  by (simp add: makeServerRequest_def Let_def)


text \<open>The objects that were in the store before a call are the same after it.\<close>

lemma create_heap: "take (length (heap w)) (heap (snd (create this srv a w))) = heap w"
  by (auto simp add: create_def spread_def store_def makeServerRequest_heap
      split: option.splits)

lemma update_heap: "take (length (heap w)) (heap (snd (update this srv name up w))) = heap w"
  by (auto simp add: update_def spread_def store_def makeServerRequest_heap Let_def
      split: option.splits sum.splits)

subsection \<open>The three outcomes of \<open>create\<close>\<close>

lemma create_conflict:
  assumes "a < length (heap w)"
    and "truthy_number (ttlSeconds (heap w ! a))" and "truthy_string (expireTime (heap w ! a))"
  shows "create this srv a w =
     (Inl (GoogleGenerativeAIRequestInputError
             ''Cannot specify both `ttlSeconds` and `expireTime`. Choose one.''),
      w\<lparr>heap := heap w @ [heap w ! a]\<rparr>)"
  using assms by (simp add: create_def spread_def nth_append)

lemma create_no_model:
  assumes "a < length (heap w)"
    and "\<not> (truthy_number (ttlSeconds (heap w ! a)) \<and> truthy_string (expireTime (heap w ! a)))"
    and "\<not> truthy_string (model (heap w ! a))"
  shows "fst (create this srv a w) =
     Inl (GoogleGenerativeAIRequestInputError ''Cached content requires a `model` field.'')"
    and "requests (snd (create this srv a w)) = requests w"
  using assms
  by (auto simp add: create_def spread_def store_def nth_append truthy_string_def
      split: option.splits)


lemma update_issues:
  assumes "name = Some n" and "n \<noteq> []"
  shows "\<exists>p b. parseCacheName name = Inr p \<and>
     requests (snd (update mgr srv name updateParams w)) =
       requests w @ [\<lparr>url = (case updateMask updateParams of
                 Some fieldNames \<Rightarrow> appendParam
                    (appendPath (CachedContentUrl UPDATE (apiKey mgr) (requestOptions mgr)) p)
                    ''update_mask'' (join (map camelToSnake fieldNames) '','')
               | None \<Rightarrow> appendPath (CachedContentUrl UPDATE (apiKey mgr) (requestOptions mgr)) p),
            body = Some b\<rparr>]"
proof -
  from parseCacheName_truthy [OF assms(2)] assms(1)
  obtain p where p: "parseCacheName name = Inr p" by auto
  show ?thesis
    by (simp add: p update_def Let_def spread_def store_def makeServerRequest_requests
        split: prod.splits option.splits)
qed


section \<open>The claims\<close>

text \<open>
  C1, as amended. For every \<open>createOptions\<close> whose \<open>ttlSeconds\<close> is a non-zero number and
  whose \<open>expireTime\<close> is a non-empty string, \<open>create\<close> throws
  \<open>GoogleGenerativeAIRequestInputError\<close>, and no request has been issued.
\<close>

theorem create_rejects_ttl_conflict:
  assumes "createOptions < length (heap w)"
    and "ttlSeconds (heap w ! createOptions) = Some n" and "n \<noteq> 0"
    and "expireTime (heap w ! createOptions) = Some t" and "t \<noteq> []"
  shows "fst (create mgr srv createOptions w) =
           Inl (GoogleGenerativeAIRequestInputError
                  ''Cannot specify both `ttlSeconds` and `expireTime`. Choose one.'')
       \<and> requests (snd (create mgr srv createOptions w)) = requests w"
  using assms by (simp add: create_conflict truthy_number_def truthy_string_def)

theorem create_rejects_ttl_conflict_witness:
  "(0::nat) < length (heap (world_of \<lparr>model = Some ''gemini-1.5-flash'', ttlSeconds = Some 300,
       expireTime = Some ''2030-01-01T00:00:00Z'', ttl = None, contents = ()\<rparr>))
   \<and> (300::int) \<noteq> 0 \<and> ''2030-01-01T00:00:00Z'' \<noteq> []
   \<and> fst (create example_manager ok_server 0
        (world_of \<lparr>model = Some ''gemini-1.5-flash'', ttlSeconds = Some 300,
           expireTime = Some ''2030-01-01T00:00:00Z'', ttl = None, contents = ()\<rparr>)) =
       Inl (GoogleGenerativeAIRequestInputError
              ''Cannot specify both `ttlSeconds` and `expireTime`. Choose one.'')
   \<and> requests (snd (create example_manager ok_server 0
        (world_of \<lparr>model = Some ''gemini-1.5-flash'', ttlSeconds = Some 300,
           expireTime = Some ''2030-01-01T00:00:00Z'', ttl = None, contents = ()\<rparr>))) = []"
  using create_rejects_ttl_conflict [of 0
     "world_of \<lparr>model = Some ''gemini-1.5-flash'', ttlSeconds = Some 300,
        expireTime = Some ''2030-01-01T00:00:00Z'', ttl = None, contents = ()\<rparr>"
     300 "''2030-01-01T00:00:00Z''" example_manager ok_server]
  by (simp add: world_of_def)

text \<open>
  C1, as stated, fails: with \<open>ttlSeconds\<close> set to 0 and \<open>expireTime\<close> set, \<open>create\<close>
  throws nothing and issues the request, whose body still has both properties.
\<close>

theorem create_zero_ttl_counterexample:
  "create example_manager ok_server 0
     (world_of \<lparr>model = Some ''gemini-1.5-flash'', ttlSeconds = Some 0,
        expireTime = Some ''2030-01-01T00:00:00Z'', ttl = None, contents = ()\<rparr>)
   = (Inr (),
      \<lparr>heap = [\<lparr>model = Some ''gemini-1.5-flash'', ttlSeconds = Some 0,
                expireTime = Some ''2030-01-01T00:00:00Z'', ttl = None, contents = ()\<rparr>,
               \<lparr>model = Some ''models/gemini-1.5-flash'', ttlSeconds = Some 0,
                expireTime = Some ''2030-01-01T00:00:00Z'', ttl = None, contents = ()\<rparr>],
       requests = [\<lparr>url = \<lparr>task = CREATE, url_apiKey = ''key'', url_requestOptions = (),
                            pathname = ''/cachedContents'', searchParams = []\<rparr>,
                    body = Some \<lparr>model = Some ''models/gemini-1.5-flash'', ttlSeconds = Some 0,
                      expireTime = Some ''2030-01-01T00:00:00Z'', ttl = None,
                      contents = ()\<rparr>\<rparr>]\<rparr>)"
  by (simp add: create_def spread_def store_def truthy_number_def includes_str_def
      sublist_Cons_right makeServerRequest_def CachedContentUrl_def example_manager_def
      ok_server_def world_of_def)

text \<open>
  C2. The claim holds of a bare name, of a falsy name, and of a name
  \<^verbatim>\<open>cachedContents/<id>\<close> whose \<^verbatim>\<open><id>\<close> does not contain \<^verbatim>\<open>cachedContents/\<close> again
  (\<open>parseCacheName_bare\<close>, \<open>falsy_name_no_request\<close>, \<open>parseCacheName_prefixed\<close>). Where
  \<^verbatim>\<open><id>\<close> contains it, \<^verbatim>\<open>split(...)[1]\<close> keeps only what stands before the second
  occurrence: for \<^verbatim>\<open>cachedContents/a/cachedContents/b\<close> the segment appended is
  \<^verbatim>\<open>a/\<close>, not \<^verbatim>\<open>a/cachedContents/b\<close>.
\<close>

theorem parseCacheName_repeated_prefix:
  "parseCacheName (Some ''cachedContents/a/cachedContents/b'') = Inr ''a/''
   \<and> requests (snd (get mgr srv (Some ''cachedContents/a/cachedContents/b'') w)) =
       requests w @ [\<lparr>url = \<lparr>task = GET, url_apiKey = apiKey mgr,
                              url_requestOptions = requestOptions mgr,
                              pathname = ''/cachedContents/a/'', searchParams = []\<rparr>,
                      body = None\<rparr>]"
proof -
  have p: "parseCacheName (Some ''cachedContents/a/cachedContents/b'') = Inr ''a/''"
    by code_simp
  show ?thesis
    by (simp add: p get_def makeServerRequest_requests CachedContentUrl_def appendPath_def)
qed





text \<open>
  C5. For every \<open>createOptions\<close> without a \<open>model\<close>, \<open>create\<close> throws
  \<open>GoogleGenerativeAIRequestInputError\<close> (and has issued no request).
\<close>

theorem create_requires_model:
  assumes "createOptions < length (heap w)"
    and "model (heap w ! createOptions) = None"
  shows "(\<exists>msg. fst (create mgr srv createOptions w) =
                 Inl (GoogleGenerativeAIRequestInputError msg))
       \<and> requests (snd (create mgr srv createOptions w)) = requests w"
proof (cases "truthy_number (ttlSeconds (heap w ! createOptions))
              \<and> truthy_string (expireTime (heap w ! createOptions))")
  case True
  with assms(1) show ?thesis by (simp add: create_conflict)
next
  case False
  from assms(2) have "\<not> truthy_string (model (heap w ! createOptions))"
    by (simp add: truthy_string_def)
  from create_no_model [OF assms(1) False this, of mgr srv] show ?thesis by simp
qed

theorem create_requires_model_witness:
  "(0::nat) < length (heap (world_of \<lparr>model = None, ttlSeconds = Some 300,
        expireTime = None, ttl = None, contents = ()\<rparr>))
   \<and> model (heap (world_of \<lparr>model = None, ttlSeconds = Some 300,
        expireTime = None, ttl = None, contents = ()\<rparr>) ! 0) = None
   \<and> (\<exists>msg. fst (create example_manager ok_server 0
          (world_of \<lparr>model = None, ttlSeconds = Some 300,
             expireTime = None, ttl = None, contents = ()\<rparr>)) =
        Inl (GoogleGenerativeAIRequestInputError msg))
   \<and> requests (snd (create example_manager ok_server 0
          (world_of \<lparr>model = None, ttlSeconds = Some 300,
             expireTime = None, ttl = None, contents = ()\<rparr>))) = []"
  using create_requires_model [of 0
     "world_of \<lparr>model = None, ttlSeconds = Some 300,
        expireTime = None, ttl = None, contents = ()\<rparr>" example_manager ok_server]
  by (simp add: world_of_def)

text \<open>
  C6. \<^verbatim>\<open>create({model: "gemini-1.5-flash", ttlSeconds: 300, contents: c})\<close> issues a
  request whose body has the \<open>model\<close> \<^verbatim>\<open>models/gemini-1.5-flash\<close>, the \<open>ttl\<close>
  \<^verbatim>\<open>300s\<close>, and no \<open>ttlSeconds\<close>.
\<close>

theorem create_end_to_end:
  assumes "createOptions < length (heap w)"
    and "heap w ! createOptions =
           \<lparr>model = Some ''gemini-1.5-flash'', ttlSeconds = Some 300, expireTime = None,
            ttl = None, contents = c\<rparr>"
  shows "requests (snd (create mgr srv createOptions w)) =
     requests w @ [\<lparr>url = CachedContentUrl CREATE (apiKey mgr) (requestOptions mgr),
                    body = Some \<lparr>model = Some ''models/gemini-1.5-flash'', ttlSeconds = None,
                                 expireTime = None, ttl = Some ''300s'', contents = c\<rparr>\<rparr>]"
proof -
  have t: "template_s (Some 300) = ''300s''" by code_simp
  have i: "\<not> includes_str ''gemini-1.5-flash'' ''/''" by code_simp
  from assms show ?thesis
    by (simp add: create_def spread_def store_def nth_append truthy_number_def
        truthy_string_def t i makeServerRequest_requests)
qed

theorem create_end_to_end_witness:
  "(0::nat) < length (heap (world_of \<lparr>model = Some ''gemini-1.5-flash'',
        ttlSeconds = Some 300, expireTime = None, ttl = None, contents = ()\<rparr>))
   \<and> heap (world_of \<lparr>model = Some ''gemini-1.5-flash'',
        ttlSeconds = Some 300, expireTime = None, ttl = None, contents = ()\<rparr>) ! 0
      = \<lparr>model = Some ''gemini-1.5-flash'', ttlSeconds = Some 300, expireTime = None,
         ttl = None, contents = ()\<rparr>
   \<and> requests (snd (create example_manager ok_server 0
        (world_of \<lparr>model = Some ''gemini-1.5-flash'',
           ttlSeconds = Some 300, expireTime = None, ttl = None, contents = ()\<rparr>))) =
      [\<lparr>url = CachedContentUrl CREATE ''key'' (),
        body = Some \<lparr>model = Some ''models/gemini-1.5-flash'', ttlSeconds = None,
                     expireTime = None, ttl = Some ''300s'', contents = ()\<rparr>\<rparr>]"
  using create_end_to_end [of 0
     "world_of \<lparr>model = Some ''gemini-1.5-flash'',
        ttlSeconds = Some 300, expireTime = None, ttl = None, contents = ()\<rparr>" "()"
     example_manager ok_server]
  by (simp add: world_of_def example_manager_def)

text \<open>
  C7. \<^verbatim>\<open>get("cachedContents/abc123")\<close> and \<^verbatim>\<open>get("abc123")\<close> do the same: each
  issues one request, a GET, to the same URL, whose path ends in \<^verbatim>\<open>/abc123\<close>.
\<close>

theorem get_prefixed_and_bare:
  "get mgr srv (Some ''cachedContents/abc123'') w = get mgr srv (Some ''abc123'') w
   \<and> (\<exists>req. requests (snd (get mgr srv (Some ''abc123'') w)) = requests w @ [req]
         \<and> task (url req) = GET
         \<and> suffix ''/abc123'' (pathname (url req)))"
proof -
  have a: "parseCacheName (Some ''cachedContents/abc123'') = Inr ''abc123''" by code_simp
  have b: "parseCacheName (Some ''abc123'') = Inr ''abc123''" by code_simp
  have s: "suffix ''/abc123'' (''/cachedContents'' @ ''/'' @ ''abc123'')"
    by (simp add: suffix_def)
  show ?thesis
    using s by (simp add: get_def a b makeServerRequest_requests appendPath_def
        CachedContentUrl_def)
qed

text \<open>
  C8. When \<open>updateMask\<close> is not supplied, the request \<open>update\<close> issues has no query
  parameter at all, so no \<^verbatim>\<open>update_mask\<close>. (By \<open>update_issues\<close> the request is issued
  whenever the name is not falsy.)
\<close>

theorem update_without_mask:
  assumes "updateMask updateParams = None"
    and "requests (snd (update mgr srv name updateParams w)) = requests w @ [req]"
  shows "searchParams (url req) = []"
proof (cases "name = None \<or> name = Some []")
  case True
  from falsy_name_no_request(2) [OF True, of mgr srv updateParams w] assms(2)
  show ?thesis by simp
next
  case False
  then obtain n where n: "name = Some n" "n \<noteq> []" by auto
  from update_issues [OF n, of mgr srv updateParams w] assms
  show ?thesis
    by (auto simp add: appendPath_def CachedContentUrl_def)
qed

theorem update_without_mask_witness:
  "updateMask \<lparr>cachedContent = 0, updateMask = None\<rparr> = None
   \<and> requests (snd (update example_manager ok_server (Some ''abc123'')
        \<lparr>cachedContent = 0, updateMask = None\<rparr>
        (world_of \<lparr>model = None, ttlSeconds = Some 300, expireTime = None, ttl = None,
           contents = ()\<rparr>)))
      = requests (world_of \<lparr>model = None, ttlSeconds = Some 300, expireTime = None,
           ttl = None, contents = ()\<rparr>)
        @ [\<lparr>url = \<lparr>task = UPDATE, url_apiKey = ''key'', url_requestOptions = (),
                   pathname = ''/cachedContents/abc123'', searchParams = []\<rparr>,
            body = Some \<lparr>model = None, ttlSeconds = None, expireTime = None,
                     ttl = Some ''300s'', contents = ()\<rparr>\<rparr>]
   \<and> searchParams (url \<lparr>url = \<lparr>task = UPDATE, url_apiKey = ''key'', url_requestOptions = (),
                   pathname = ''/cachedContents/abc123'', searchParams = []\<rparr>,
            body = Some \<lparr>model = None, ttlSeconds = None, expireTime = None,
                     ttl = Some ''300s'', contents = ()\<rparr>\<rparr>) = []"
proof -
  have p: "parseCacheName (Some ''abc123'') = Inr ''abc123''" by code_simp
  have t: "template_s (Some 300) = ''300s''" by code_simp
  have sent: "requests (snd (update example_manager ok_server (Some ''abc123'')
        \<lparr>cachedContent = 0, updateMask = None\<rparr>
        (world_of \<lparr>model = None, ttlSeconds = Some 300, expireTime = None, ttl = None,
           contents = ()\<rparr>)))
      = requests (world_of \<lparr>model = None, ttlSeconds = Some 300, expireTime = None,
           ttl = None, contents = ()\<rparr>)
        @ [\<lparr>url = \<lparr>task = UPDATE, url_apiKey = ''key'', url_requestOptions = (),
                   pathname = ''/cachedContents/abc123'', searchParams = []\<rparr>,
            body = Some \<lparr>model = None, ttlSeconds = None, expireTime = None,
                     ttl = Some ''300s'', contents = ()\<rparr>\<rparr>]"
    by (simp add: update_def p t spread_def store_def truthy_number_def
        makeServerRequest_requests CachedContentUrl_def appendPath_def example_manager_def
        world_of_def)
  from update_without_mask [OF _ sent] sent show ?thesis by simp
qed

text \<open>
  C9. Neither \<open>create\<close> nor \<open>update\<close> writes to the object it is given: whatever the
  outcome, the object at \<open>createOptions\<close>, and the one at \<open>updateParams.cachedContent\<close>,
  is afterwards what it was before. (By \<open>create_heap\<close> and \<open>update_heap\<close> this holds of
  every object of the store: the methods write to their copy only.)
\<close>

theorem arguments_not_mutated:
  assumes "createOptions < length (heap w)" and "cachedContent updateParams < length (heap w)"
  shows "heap (snd (create mgr srv createOptions w)) ! createOptions = heap w ! createOptions
       \<and> heap (snd (update mgr srv name updateParams w)) ! cachedContent updateParams
           = heap w ! cachedContent updateParams"
proof -
  have "take (length (heap w)) (heap (snd (create mgr srv createOptions w))) ! createOptions
          = heap w ! createOptions"
    by (simp only: create_heap)
  moreover
  have "take (length (heap w)) (heap (snd (update mgr srv name updateParams w)))
          ! cachedContent updateParams = heap w ! cachedContent updateParams"
    by (simp only: update_heap)
  ultimately show ?thesis using assms by simp
qed

theorem arguments_not_mutated_witness:
  "(0::nat) < length (heap (world_of \<lparr>model = Some ''gemini-1.5-flash'',
        ttlSeconds = Some 300, expireTime = None, ttl = None, contents = ()\<rparr>))
   \<and> cachedContent \<lparr>cachedContent = 0, updateMask = None\<rparr>
       < length (heap (world_of \<lparr>model = Some ''gemini-1.5-flash'',
           ttlSeconds = Some 300, expireTime = None, ttl = None, contents = ()\<rparr>))
   \<and> heap (snd (create example_manager ok_server 0
        (world_of \<lparr>model = Some ''gemini-1.5-flash'',
           ttlSeconds = Some 300, expireTime = None, ttl = None, contents = ()\<rparr>))) ! 0
      = \<lparr>model = Some ''gemini-1.5-flash'', ttlSeconds = Some 300, expireTime = None,
         ttl = None, contents = ()\<rparr>
   \<and> heap (snd (update example_manager ok_server (Some ''abc123'')
        \<lparr>cachedContent = 0, updateMask = None\<rparr>
        (world_of \<lparr>model = Some ''gemini-1.5-flash'',
           ttlSeconds = Some 300, expireTime = None, ttl = None, contents = ()\<rparr>))) ! 0
      = \<lparr>model = Some ''gemini-1.5-flash'', ttlSeconds = Some 300, expireTime = None,
         ttl = None, contents = ()\<rparr>"
  using arguments_not_mutated [of 0
     "world_of \<lparr>model = Some ''gemini-1.5-flash'',
        ttlSeconds = Some 300, expireTime = None, ttl = None, contents = ()\<rparr>"
     "\<lparr>cachedContent = 0, updateMask = None\<rparr>" example_manager ok_server "Some ''abc123''"]
  by (simp add: world_of_def)




end
